theory Spec2Isabelle
  imports Complex_Main
begin

section \<open>The cash-velocity simulation (\<open>simulate\<close>)\<close>

text \<open>
  The source is one JavaScript function, \<open>simulate(cm, roas, netTermsDays)\<close>, with the
  helper \<open>round2\<close>. It is read twice. In the first reading JavaScript numbers are
  mathematical reals: every arithmetic operation is exact, \<open>Math.pow\<close> with the
  fractional exponent is \<open>powr\<close>, \<open>Math.pow\<close> with the integral exponent \<open>m - 1\<close> is
  the power \<open>^\<close>, and \<open>Math.round x\<close> is \<open>\<lfloor>x + 1/2\<rfloor>\<close> (nearest integer, ties
  upwards). In the second reading (the definitions with the suffix \<open>_fl\<close>) the rounding
  of each operation to a double is written out. Non-finite values are outside both.
  Each \<open>const\<close> of the function body is a definition of its own, named as in the
  source, so that statements can speak about it.
\<close>

subsection \<open>Data\<close>

text \<open>One element of the returned array: \<open>{ month, portless, traditional }\<close>.\<close>

record point =
  month :: nat
  portless :: real
  traditional :: real

text \<open>The returned object: \<open>{ data, multiplier }\<close>.\<close>

record result =
  data :: "point list"
  multiplier :: real

text \<open>The variables the loop updates: the array and the two running indices.\<close>

record loop_state =
  acc :: "point list"
  pIdx :: real
  tIdx :: real

subsection \<open>Rounding\<close>

text \<open>\<open>function round2(n) { return Math.round(n * 100) / 100; }\<close>\<close>

definition round2 :: "real \<Rightarrow> real" where
  "round2 n = of_int \<lfloor>n * 100 + 1 / 2\<rfloor> / 100"

subsection \<open>Rate derivation\<close>

text \<open>\<open>const rawExcess = cm * (roas - 1);\<close>\<close>

definition rawExcess :: "real \<Rightarrow> real \<Rightarrow> real" where
  "rawExcess cm roas = cm * (roas - 1)"

text \<open>\<open>const growthPerCycle = Math.min(Math.pow(Math.max(rawExcess, 0), 0.7) * 0.14, 0.35);\<close>\<close>

definition growthPerCycle :: "real \<Rightarrow> real \<Rightarrow> real" where
  "growthPerCycle cm roas = min ((max (rawExcess cm roas) 0) powr 0.7 * 0.14) 0.35"

text \<open>\<open>const TRADITIONAL_CYCLE = 3.5;\<close>\<close>

definition TRADITIONAL_CYCLE :: real where
  "TRADITIONAL_CYCLE = 3.5"

text \<open>\<open>const portlessCycle = Math.max(0.75, 1.0 - (netTermsDays - 30) * 0.004);\<close>\<close>

definition portlessCycle :: "real \<Rightarrow> real" where
  "portlessCycle netTermsDays = max 0.75 (1.0 - (netTermsDays - 30) * 0.004)"

text \<open>\<open>const portlessMonthly = growthPerCycle / portlessCycle;\<close>\<close>

definition portlessMonthly :: "real \<Rightarrow> real \<Rightarrow> real \<Rightarrow> real" where
  "portlessMonthly cm roas netTermsDays = growthPerCycle cm roas / portlessCycle netTermsDays"

text \<open>\<open>const traditionalMonthly = growthPerCycle / TRADITIONAL_CYCLE;\<close>\<close>

definition traditionalMonthly :: "real \<Rightarrow> real \<Rightarrow> real" where
  "traditionalMonthly cm roas = growthPerCycle cm roas / TRADITIONAL_CYCLE"

text \<open>\<open>const DECAY = 0.96;\<close>\<close>

definition DECAY :: real where
  "DECAY = 0.96"

subsection \<open>The compounding loop\<close>

text \<open>
  The body of \<open>for (let m = 1; m <= 12; m++)\<close>: the decay factor of the month, the
  two in-place multiplications, and the \<open>push\<close> of the rounded values. The running
  indices themselves are stored unrounded, as \<open>pIdx *= ...\<close> and \<open>tIdx *= ...\<close> do.
\<close>

definition loop_body :: "real \<Rightarrow> real \<Rightarrow> nat \<Rightarrow> loop_state \<Rightarrow> loop_state" where
  "loop_body pm tm m s =
     (let d = DECAY ^ (m - 1);
          p = pIdx s * (1 + pm * d);
          t = tIdx s * (1 + tm * d)
      in \<lparr>acc = acc s @ [\<lparr>month = m, portless = round2 p, traditional = round2 t\<rparr>],
          pIdx = p, tIdx = t\<rparr>)"

function loop :: "real \<Rightarrow> real \<Rightarrow> nat \<Rightarrow> loop_state \<Rightarrow> loop_state" where
  "loop pm tm m s = (if m \<le> 12 then loop pm tm (m + 1) (loop_body pm tm m s) else s)"
  by pat_completeness auto
termination
  by (relation "measure (\<lambda>(pm, tm, m, s). 13 - m)") auto

declare loop.simps [simp del]

text \<open>
  \<open>const data = [{ month: 0, portless: 1, traditional: 1 }]; let pIdx = 1; let tIdx = 1;\<close>
\<close>

definition init_state :: loop_state where
  "init_state = \<lparr>acc = [\<lparr>month = 0, portless = 1, traditional = 1\<rparr>], pIdx = 1, tIdx = 1\<rparr>"

text \<open>The whole function; it returns \<open>{ data, multiplier: pIdx / tIdx }\<close>.\<close>

definition simulate :: "real \<Rightarrow> real \<Rightarrow> real \<Rightarrow> result" where
  "simulate cm roas netTermsDays =
     (let s = loop (portlessMonthly cm roas netTermsDays) (traditionalMonthly cm roas) 1 init_state
      in \<lparr>data = acc s, multiplier = pIdx s / tIdx s\<rparr>)"

subsection \<open>The unrounded index as a product\<close>

text \<open>
  Auxiliary to the proofs: the value a running index has after month \<open>m\<close> when it
  starts at 1 and is multiplied by \<open>1 + r * DECAY ^ (k - 1)\<close> in each month
  \<open>k = 1, ..., m\<close>, and the array element built from two such values.
\<close>

definition index_after :: "real \<Rightarrow> nat \<Rightarrow> real" where
  "index_after r m = (\<Prod>k<m. 1 + r * DECAY ^ k)"

definition recorded :: "real \<Rightarrow> real \<Rightarrow> nat \<Rightarrow> point" where
  "recorded pm tm m =
     \<lparr>month = m, portless = round2 (index_after pm m), traditional = round2 (index_after tm m)\<rparr>"

subsection \<open>The same function with the roundings of double precision written out\<close>

text \<open>
  A second reading of the same source lines, for the statements about the values the
  loop records and carries. A JavaScript number is a double: the result of every
  \<open>+\<close>, \<open>-\<close>, \<open>*\<close> and \<open>/\<close> is rounded to a double, a decimal literal that is not
  a binary fraction (\<open>0.7\<close>, \<open>0.14\<close>, \<open>0.35\<close>, \<open>0.004\<close>, \<open>0.96\<close>) denotes its
  rounding, and \<open>Math.pow\<close> returns an approximation of the power. The rounding is the
  parameter \<open>fl\<close> and \<open>Math.pow\<close> is the parameter \<open>pw\<close>; \<open>Math.max\<close>,
  \<open>Math.min\<close> and \<open>Math.round\<close> (on a finite double: \<open>\<lfloor>x + 1/2\<rfloor>\<close>) are exact, and
  so are the literals \<open>0\<close>, \<open>1\<close>, \<open>30\<close>, \<open>100\<close>, \<open>0.75\<close> and \<open>3.5\<close>. The operations
  are nested as JavaScript evaluates them. A statement proved for every \<open>fl\<close> and
  \<open>pw\<close> holds for the rounding and the power of the platform, as long as every value
  stays finite (\<open>fl64\<close> below is that rounding); with no rounding and the real power
  it is the exact reading above (\<open>simulate_fl_exact\<close>).
\<close>

text \<open>\<open>function round2(n) { return Math.round(n * 100) / 100; }\<close>\<close>

definition round2_fl :: "(real \<Rightarrow> real) \<Rightarrow> real \<Rightarrow> real" where
  "round2_fl fl n = fl (of_int \<lfloor>fl (n * 100) + 1 / 2\<rfloor> / 100)"

text \<open>\<open>const rawExcess = cm * (roas - 1);\<close>\<close>

definition rawExcess_fl :: "(real \<Rightarrow> real) \<Rightarrow> real \<Rightarrow> real \<Rightarrow> real" where
  "rawExcess_fl fl cm roas = fl (cm * fl (roas - 1))"

text \<open>\<open>const growthPerCycle = Math.min(Math.pow(Math.max(rawExcess, 0), 0.7) * 0.14, 0.35);\<close>\<close>

definition growthPerCycle_fl ::
  "(real \<Rightarrow> real) \<Rightarrow> (real \<Rightarrow> real \<Rightarrow> real) \<Rightarrow> real \<Rightarrow> real \<Rightarrow> real" where
  "growthPerCycle_fl fl pw cm roas =
     min (fl (pw (max (rawExcess_fl fl cm roas) 0) (fl 0.7) * fl 0.14)) (fl 0.35)"

text \<open>\<open>const portlessCycle = Math.max(0.75, 1.0 - (netTermsDays - 30) * 0.004);\<close>\<close>

definition portlessCycle_fl :: "(real \<Rightarrow> real) \<Rightarrow> real \<Rightarrow> real" where
  "portlessCycle_fl fl netTermsDays =
     max 0.75 (fl (1.0 - fl (fl (netTermsDays - 30) * fl 0.004)))"

text \<open>\<open>const portlessMonthly = growthPerCycle / portlessCycle;\<close>\<close>

definition portlessMonthly_fl ::
  "(real \<Rightarrow> real) \<Rightarrow> (real \<Rightarrow> real \<Rightarrow> real) \<Rightarrow> real \<Rightarrow> real \<Rightarrow> real \<Rightarrow> real" where
  "portlessMonthly_fl fl pw cm roas netTermsDays =
     fl (growthPerCycle_fl fl pw cm roas / portlessCycle_fl fl netTermsDays)"

text \<open>\<open>const traditionalMonthly = growthPerCycle / TRADITIONAL_CYCLE;\<close>\<close>

definition traditionalMonthly_fl ::
  "(real \<Rightarrow> real) \<Rightarrow> (real \<Rightarrow> real \<Rightarrow> real) \<Rightarrow> real \<Rightarrow> real \<Rightarrow> real" where
  "traditionalMonthly_fl fl pw cm roas = fl (growthPerCycle_fl fl pw cm roas / TRADITIONAL_CYCLE)"

text \<open>
  The loop body: \<open>const d = Math.pow(DECAY, m - 1); pIdx *= (1 + portlessMonthly * d);
  tIdx *= (1 + traditionalMonthly * d); data.push({ month: m, portless: round2(pIdx),
  traditional: round2(tIdx) });\<close>
\<close>

definition loop_body_fl ::
  "(real \<Rightarrow> real) \<Rightarrow> (real \<Rightarrow> real \<Rightarrow> real) \<Rightarrow> real \<Rightarrow> real \<Rightarrow> nat \<Rightarrow> loop_state \<Rightarrow> loop_state" where
  "loop_body_fl fl pw pm tm m s =
     (let d = pw (fl DECAY) (real (m - 1));
          p = fl (pIdx s * fl (1 + fl (pm * d)));
          t = fl (tIdx s * fl (1 + fl (tm * d)))
      in \<lparr>acc = acc s @ [\<lparr>month = m, portless = round2_fl fl p, traditional = round2_fl fl t\<rparr>],
          pIdx = p, tIdx = t\<rparr>)"

function loop_fl ::
  "(real \<Rightarrow> real) \<Rightarrow> (real \<Rightarrow> real \<Rightarrow> real) \<Rightarrow> real \<Rightarrow> real \<Rightarrow> nat \<Rightarrow> loop_state \<Rightarrow> loop_state" where
  "loop_fl fl pw pm tm m s =
     (if m \<le> 12 then loop_fl fl pw pm tm (m + 1) (loop_body_fl fl pw pm tm m s) else s)"
  by pat_completeness auto
termination
  by (relation "measure (\<lambda>(fl, pw, pm, tm, m, s). 13 - m)") auto

declare loop_fl.simps [simp del]

text \<open>The whole function; it returns \<open>{ data, multiplier: pIdx / tIdx }\<close>.\<close>

definition simulate_fl ::
  "(real \<Rightarrow> real) \<Rightarrow> (real \<Rightarrow> real \<Rightarrow> real) \<Rightarrow> real \<Rightarrow> real \<Rightarrow> real \<Rightarrow> result" where
  "simulate_fl fl pw cm roas netTermsDays =
     (let s = loop_fl fl pw (portlessMonthly_fl fl pw cm roas netTermsDays)
                (traditionalMonthly_fl fl pw cm roas) 1 init_state
      in \<lparr>data = acc s, multiplier = fl (pIdx s / tIdx s)\<rparr>)"

text \<open>
  Auxiliary to the proofs: the running index after month \<open>m\<close>, which starts at 1 and
  is multiplied in each month as the loop body does, with no \<open>round2\<close> in between;
  and the array element built from two such values.
\<close>

fun index_fl :: "(real \<Rightarrow> real) \<Rightarrow> (real \<Rightarrow> real \<Rightarrow> real) \<Rightarrow> real \<Rightarrow> nat \<Rightarrow> real" where
  "index_fl fl pw r 0 = 1"
| "index_fl fl pw r (Suc m) =
     fl (index_fl fl pw r m * fl (1 + fl (r * pw (fl DECAY) (real m))))"

definition recorded_fl ::
  "(real \<Rightarrow> real) \<Rightarrow> (real \<Rightarrow> real \<Rightarrow> real) \<Rightarrow> real \<Rightarrow> real \<Rightarrow> nat \<Rightarrow> point" where
  "recorded_fl fl pw pm tm m =
     \<lparr>month = m, portless = round2_fl fl (index_fl fl pw pm m),
      traditional = round2_fl fl (index_fl fl pw tm m)\<rparr>"

subsection \<open>The rounding of double precision\<close>

text \<open>
  An instance of the parameter \<open>fl\<close>: the rounding of a real to the nearest double
  (IEEE 754 binary64, ties to the even significand). A double is an integer multiple
  of \<open>2 ^ e\<close> with a significand of at most 53 bits; for \<open>x\<close> between \<open>2 ^ k\<close> and
  \<open>2 ^ (k + 1)\<close> the spacing is \<open>2 ^ (k - 52)\<close>, and \<open>2 ^ (- 1074)\<close> below the normal
  range. Values beyond the largest double have no real counterpart (the platform
  yields \<open>Infinity\<close>) and are outside this definition.
\<close>

definition pow2 :: "int \<Rightarrow> real" where
  "pow2 e = (if 0 \<le> e then 2 ^ nat e else 1 / 2 ^ nat (- e))"

definition round_even :: "real \<Rightarrow> int" where
  "round_even q =
     (let n = \<lfloor>q\<rfloor>; r = q - of_int n
      in if r < 1 / 2 then n else if 1 / 2 < r then n + 1 else if even n then n else n + 1)"

definition fl64 :: "real \<Rightarrow> real" where
  "fl64 x =
     (if x = 0 then 0
      else let e = max \<lfloor>log 2 \<bar>x\<bar>\<rfloor> (- 1022) - 52
           in of_int (round_even (x / pow2 e)) * pow2 e)"

subsection \<open>The growth formula in the specification's words\<close>

text \<open>
  Written from the specification, for comparison with \<open>growthPerCycle\<close>:
  growth per cycle = \<open>min(0.35, 0.14 * excessReturn ^ 0.7)\<close>, the excess return
  \<open>contributionMargin * (roas - 1)\<close> clamped to 0 from below.
\<close>

definition spec_growthPerCycle :: "real \<Rightarrow> real \<Rightarrow> real" where
  "spec_growthPerCycle contributionMargin roas =
     min 0.35 (0.14 * (max 0 (contributionMargin * (roas - 1))) powr 0.7)"

section \<open>What the loop computes\<close>

lemma index_after_0: "index_after r 0 = 1"
  by (simp add: index_after_def)

lemma index_after_Suc: "index_after r (Suc m) = index_after r m * (1 + r * DECAY ^ m)"
  by (simp add: index_after_def)

lemma round2_of_int: "round2 (of_int z) = of_int z"
proof -
  have "\<lfloor>(of_int z :: real) * 100 + 1 / 2\<rfloor> = z * 100"
    by linarith
  then show ?thesis by (simp add: round2_def)
qed

lemma round2_one: "round2 1 = 1"
  using round2_of_int [of 1] by simp

lemma round2_mono: "x \<le> y \<Longrightarrow> round2 x \<le> round2 y"
  unfolding round2_def
  by (intro divide_right_mono of_int_le_iff[THEN iffD2] floor_mono) simp_all

lemma loop_body_index:
  assumes "pIdx s = index_after pm m" and "tIdx s = index_after tm m"
  shows "loop_body pm tm (Suc m) s =
           \<lparr>acc = acc s @ [recorded pm tm (Suc m)],
            pIdx = index_after pm (Suc m), tIdx = index_after tm (Suc m)\<rparr>"
  using assms by (simp add: loop_body_def recorded_def index_after_Suc Let_def)

lemma loop_run:
  assumes "m \<le> 12" and "pIdx s = index_after pm m" and "tIdx s = index_after tm m"
  shows "loop pm tm (Suc m) s =
           \<lparr>acc = acc s @ map (recorded pm tm) [Suc m..<13],
            pIdx = index_after pm 12, tIdx = index_after tm 12\<rparr>"
  using assms
proof (induction "12 - m" arbitrary: m s)
  case 0
  then have m: "m = 12" by simp
  have "loop pm tm (Suc m) s = s"
    by (subst loop.simps) (simp add: m)
  with 0 m show ?case by simp
next
  case (Suc n)
  then have lt: "m < 12" by simp
  let ?s' = "loop_body pm tm (Suc m) s"
  have body: "?s' = \<lparr>acc = acc s @ [recorded pm tm (Suc m)],
            pIdx = index_after pm (Suc m), tIdx = index_after tm (Suc m)\<rparr>"
    using Suc.prems by (simp add: loop_body_index)
  have "loop pm tm (Suc m) s = loop pm tm (Suc (Suc m)) ?s'"
    using lt by (subst loop.simps) simp
  also have "\<dots> = \<lparr>acc = acc ?s' @ map (recorded pm tm) [Suc (Suc m)..<13],
            pIdx = index_after pm 12, tIdx = index_after tm 12\<rparr>"
    using Suc.hyps(2) lt by (intro Suc.hyps(1)) (simp_all add: body)
  also have "\<dots> = \<lparr>acc = acc s @ map (recorded pm tm) [Suc m..<13],
            pIdx = index_after pm 12, tIdx = index_after tm 12\<rparr>"
    using lt by (simp add: body upt_conv_Cons [of "Suc m" 13])
  finally show ?case .
qed

lemma recorded_0: "recorded pm tm 0 = \<lparr>month = 0, portless = 1, traditional = 1\<rparr>"
  by (simp add: recorded_def index_after_0 round2_one)

lemma loop_init:
  "loop pm tm (Suc 0) init_state =
     \<lparr>acc = map (recorded pm tm) [0..<13], pIdx = index_after pm 12, tIdx = index_after tm 12\<rparr>"
proof -
  have "loop pm tm (Suc 0) init_state =
     \<lparr>acc = acc init_state @ map (recorded pm tm) [Suc 0..<13],
      pIdx = index_after pm 12, tIdx = index_after tm 12\<rparr>"
    by (rule loop_run) (simp_all add: init_state_def index_after_0)
  moreover have "acc init_state @ map (recorded pm tm) [Suc 0..<13] = map (recorded pm tm) [0..<13]"
    by (simp add: init_state_def recorded_0 upt_conv_Cons [of 0 13])
  ultimately show ?thesis by simp
qed

lemma simulate_data:
  "data (simulate cm roas days) =
     map (recorded (portlessMonthly cm roas days) (traditionalMonthly cm roas)) [0..<13]"
  by (simp add: simulate_def loop_init Let_def)

lemma simulate_multiplier:
  "multiplier (simulate cm roas days) =
     index_after (portlessMonthly cm roas days) 12 / index_after (traditionalMonthly cm roas) 12"
  by (simp add: simulate_def loop_init Let_def)

section \<open>Facts about the rates and the unrounded indices\<close>

lemma growthPerCycle_nonneg: "0 \<le> growthPerCycle cm roas"
  by (simp add: growthPerCycle_def)

lemma growthPerCycle_le_cap: "growthPerCycle cm roas \<le> 0.35"
  by (simp add: growthPerCycle_def)

lemma portlessCycle_ge_floor: "0.75 \<le> portlessCycle days"
  by (simp add: portlessCycle_def)

lemma portlessCycle_pos: "0 < portlessCycle days"
  by (simp add: portlessCycle_def less_max_iff_disj)

lemma portlessMonthly_nonneg: "0 \<le> portlessMonthly cm roas days"
  using growthPerCycle_nonneg [of cm roas] portlessCycle_pos [of days]
  by (simp add: portlessMonthly_def)

lemma traditionalMonthly_nonneg: "0 \<le> traditionalMonthly cm roas"
  using growthPerCycle_nonneg [of cm roas]
  by (simp add: traditionalMonthly_def TRADITIONAL_CYCLE_def)

lemma factor_ge_1: "0 \<le> r \<Longrightarrow> 1 \<le> 1 + r * DECAY ^ k"
  by (simp add: DECAY_def)

lemma index_after_ge_1: "0 \<le> r \<Longrightarrow> 1 \<le> index_after r m"
proof (induction m)
  case 0
  then show ?case by (simp add: index_after_0)
next
  case (Suc m)
  then have "1 * 1 \<le> index_after r m * (1 + r * DECAY ^ m)"
    by (intro mult_mono factor_ge_1) simp_all
  then show ?case by (simp add: index_after_Suc)
qed

lemma index_after_step: "0 \<le> r \<Longrightarrow> index_after r m \<le> index_after r (Suc m)"
proof -
  assume r: "0 \<le> r"
  have "index_after r m * 1 \<le> index_after r m * (1 + r * DECAY ^ m)"
    using index_after_ge_1 [OF r, of m] factor_ge_1 [OF r, of m]
    by (intro mult_left_mono) simp_all
  then show ?thesis by (simp add: index_after_Suc)
qed

lemma index_after_mono_month: "0 \<le> r \<Longrightarrow> m \<le> n \<Longrightarrow> index_after r m \<le> index_after r n"
  by (rule lift_Suc_mono_le [of "index_after r"]) (simp_all add: index_after_step)

lemma index_after_mono_rate:
  assumes "0 \<le> r" and "r \<le> r'"
  shows "index_after r m \<le> index_after r' m"
  unfolding index_after_def
proof (rule prod_mono)
  fix k assume "k \<in> {..<m}"
  have "0 \<le> DECAY ^ k" by (simp add: DECAY_def)
  then have "r * DECAY ^ k \<le> r' * DECAY ^ k"
    using assms by (intro mult_right_mono) simp_all
  moreover have "0 \<le> 1 + r * DECAY ^ k"
    using factor_ge_1 [OF assms(1), of k] by linarith
  ultimately show "0 \<le> 1 + r * DECAY ^ k \<and> 1 + r * DECAY ^ k \<le> 1 + r' * DECAY ^ k"
    by simp
qed

lemma index_after_rate_0: "index_after 0 m = 1"
  by (simp add: index_after_def)

lemma recorded_rate_0: "recorded 0 0 m = \<lparr>month = m, portless = 1, traditional = 1\<rparr>"
  by (simp add: recorded_def index_after_rate_0 round2_one)

lemma sorted_map_upt:
  assumes "\<And>i j. i \<le> j \<Longrightarrow> f i \<le> (f j :: real)"
  shows "sorted (map f [a..<b])"
proof -
  have "sorted_wrt (\<lambda>x y. f x \<le> f y) [a..<b]"
    by (rule sorted_wrt_mono_rel [of _ "(<)"]) (simp_all add: assms)
  then show ?thesis by (simp add: sorted_map)
qed

lemma growthPerCycle_zero_iff: "growthPerCycle cm roas = 0 \<longleftrightarrow> rawExcess cm roas \<le> 0"
  by (auto simp: growthPerCycle_def min_def max_def)

lemma growthPerCycle_mono_excess:
  "rawExcess cm1 roas1 \<le> rawExcess cm2 roas2 \<Longrightarrow> growthPerCycle cm1 roas1 \<le> growthPerCycle cm2 roas2"
  unfolding growthPerCycle_def
  by (intro min.mono mult_right_mono powr_mono2) simp_all

lemma four_powr_pow10: "((4::real) powr 0.7) ^ 10 = 4 ^ 7"
proof -
  have "((4::real) powr 0.7) ^ 10 = (4 powr 0.7) powr 10"
    by simp
  also have "\<dots> = 4 powr 7"
    by (simp add: powr_powr)
  also have "\<dots> = 4 ^ 7"
    by simp
  finally show ?thesis .
qed

lemma four_powr_lower: "(2639 / 1000 :: real) < 4 powr 0.7"
proof (rule ccontr)
  assume "\<not> (2639 / 1000 :: real) < 4 powr 0.7"
  then have "(4 powr 0.7 :: real) \<le> 2639 / 1000" by simp
  then have "((4::real) powr 0.7) ^ 10 \<le> (2639 / 1000) ^ 10"
    by (intro power_mono) simp_all
  moreover have "((4::real) powr 0.7) ^ 10 = 4 ^ 7"
    by (rule four_powr_pow10)
  ultimately show False by (simp add: power_divide)
qed

lemma four_powr_upper: "(4::real) powr 0.7 < 2640 / 1000"
proof (rule ccontr)
  assume "\<not> (4::real) powr 0.7 < 2640 / 1000"
  then have "(2640 / 1000 :: real) \<le> 4 powr 0.7" by simp
  then have "(2640 / 1000 :: real) ^ 10 \<le> (4 powr 0.7) ^ 10"
    by (intro power_mono) simp_all
  moreover have "((4::real) powr 0.7) ^ 10 = 4 ^ 7"
    by (rule four_powr_pow10)
  ultimately show False by (simp add: power_divide)
qed

lemma growthPerCycle_capped: "growthPerCycle (4/5) 6 = 7/20"
  using four_powr_lower by (simp add: growthPerCycle_def rawExcess_def min_def)

lemma growthPerCycle_unit_excess: "growthPerCycle (1/2) 3 = 7/50"
  by (simp add: growthPerCycle_def rawExcess_def)

section \<open>Evaluation at the capped input \<open>cm = 0.80, roas = 6.0, netTermsDays = 30\<close>\<close>

lemma index_after_numeral:
  "index_after r (numeral n) =
     index_after r (pred_numeral n) * (1 + r * DECAY ^ pred_numeral n)"
  by (simp add: numeral_eq_Suc index_after_Suc)

lemmas index_after_eval =
  index_after_numeral index_after_Suc index_after_0 DECAY_def power_divide

lemma portlessMonthly_capped: "portlessMonthly (4/5) 6 30 = 7/20"
  by (simp add: portlessMonthly_def growthPerCycle_capped portlessCycle_def)

lemma traditionalMonthly_capped: "traditionalMonthly (4/5) 6 = 1/10"
  by (simp add: traditionalMonthly_def growthPerCycle_capped TRADITIONAL_CYCLE_def)

lemma nth_data:
  "m < 13 \<Longrightarrow> data (simulate cm roas days) ! m =
     recorded (portlessMonthly cm roas days) (traditionalMonthly cm roas) m"
  by (simp add: simulate_data del: upt_Suc)

lemma capped_portless_2: "round2 (index_after (7/20) 2) = 180/100"
  by (simp add: index_after_eval round2_def)

lemma capped_portless_3: "round2 (index_after (7/20) 3) = 239/100"
  by (simp add: index_after_eval round2_def)

lemma capped_portless_12: "round2 (index_after (7/20) 12) = 1967/100"
  by (simp add: index_after_eval round2_def)

lemma capped_traditional_12: "round2 (index_after (1/10) 12) = 254/100"
  by (simp add: index_after_eval round2_def)

lemma capped_ratio_12:
  "index_after (7/20) 12 / index_after (1/10) 12 \<noteq> (1967/100) / (254/100)"
  by (simp add: index_after_eval)

section \<open>What the loop computes, with the roundings written out\<close>

lemma loop_body_fl_index:
  assumes "pIdx s = index_fl fl pw pm m" and "tIdx s = index_fl fl pw tm m"
  shows "loop_body_fl fl pw pm tm (Suc m) s =
           \<lparr>acc = acc s @ [recorded_fl fl pw pm tm (Suc m)],
            pIdx = index_fl fl pw pm (Suc m), tIdx = index_fl fl pw tm (Suc m)\<rparr>"
  using assms by (simp add: loop_body_fl_def recorded_fl_def Let_def)

lemma loop_fl_run:
  assumes "m \<le> 12" and "pIdx s = index_fl fl pw pm m" and "tIdx s = index_fl fl pw tm m"
  shows "loop_fl fl pw pm tm (Suc m) s =
           \<lparr>acc = acc s @ map (recorded_fl fl pw pm tm) [Suc m..<13],
            pIdx = index_fl fl pw pm 12, tIdx = index_fl fl pw tm 12\<rparr>"
  using assms
proof (induction "12 - m" arbitrary: m s)
  case 0
  then have m: "m = 12" by simp
  have "loop_fl fl pw pm tm (Suc m) s = s"
    by (subst loop_fl.simps) (simp add: m)
  with 0 m show ?case by simp
next
  case (Suc n)
  then have lt: "m < 12" by simp
  let ?s' = "loop_body_fl fl pw pm tm (Suc m) s"
  have body: "?s' = \<lparr>acc = acc s @ [recorded_fl fl pw pm tm (Suc m)],
            pIdx = index_fl fl pw pm (Suc m), tIdx = index_fl fl pw tm (Suc m)\<rparr>"
    using Suc.prems by (simp only: loop_body_fl_index)
  have "loop_fl fl pw pm tm (Suc m) s = loop_fl fl pw pm tm (Suc (Suc m)) ?s'"
    using lt by (subst loop_fl.simps) simp
  also have "\<dots> = \<lparr>acc = acc ?s' @ map (recorded_fl fl pw pm tm) [Suc (Suc m)..<13],
            pIdx = index_fl fl pw pm 12, tIdx = index_fl fl pw tm 12\<rparr>"
    using Suc.hyps(2) lt by (intro Suc.hyps(1)) (simp_all only: body, simp_all)
  also have "\<dots> = \<lparr>acc = acc s @ map (recorded_fl fl pw pm tm) [Suc m..<13],
            pIdx = index_fl fl pw pm 12, tIdx = index_fl fl pw tm 12\<rparr>"
    using lt by (simp add: body upt_conv_Cons [of "Suc m" 13] del: index_fl.simps)
  finally show ?case .
qed

lemma loop_fl_init:
  "loop_fl fl pw pm tm (Suc 0) init_state =
     \<lparr>acc = \<lparr>month = 0, portless = 1, traditional = 1\<rparr> # map (recorded_fl fl pw pm tm) [1..<13],
      pIdx = index_fl fl pw pm 12, tIdx = index_fl fl pw tm 12\<rparr>"
proof -
  have "loop_fl fl pw pm tm (Suc 0) init_state =
     \<lparr>acc = acc init_state @ map (recorded_fl fl pw pm tm) [Suc 0..<13],
      pIdx = index_fl fl pw pm 12, tIdx = index_fl fl pw tm 12\<rparr>"
    by (rule loop_fl_run) (simp_all add: init_state_def)
  then show ?thesis
    by (simp add: init_state_def del: upt_Suc)
qed

lemma simulate_fl_data:
  "data (simulate_fl fl pw cm roas days) =
     \<lparr>month = 0, portless = 1, traditional = 1\<rparr> #
     map (recorded_fl fl pw (portlessMonthly_fl fl pw cm roas days)
            (traditionalMonthly_fl fl pw cm roas)) [1..<13]"
  by (simp add: simulate_fl_def loop_fl_init Let_def del: upt_Suc)

lemma simulate_fl_multiplier:
  "multiplier (simulate_fl fl pw cm roas days) =
     fl (index_fl fl pw (portlessMonthly_fl fl pw cm roas days) 12 /
         index_fl fl pw (traditionalMonthly_fl fl pw cm roas) 12)"
  by (simp add: simulate_fl_def loop_fl_init Let_def del: upt_Suc)

text \<open>With no rounding and the real power, the second reading is the first.\<close>

lemma round2_fl_exact: "round2_fl (\<lambda>x. x) = round2"
  by (rule ext) (simp add: round2_fl_def round2_def)

lemma index_fl_exact: "index_fl (\<lambda>x. x) (powr) r m = index_after r m"
  by (induction m) (simp_all add: index_after_0 index_after_Suc DECAY_def powr_realpow)

lemma growthPerCycle_fl_exact: "growthPerCycle_fl (\<lambda>x. x) (powr) cm roas = growthPerCycle cm roas"
  by (simp add: growthPerCycle_fl_def growthPerCycle_def rawExcess_fl_def rawExcess_def)

lemma portlessMonthly_fl_exact:
  "portlessMonthly_fl (\<lambda>x. x) (powr) cm roas days = portlessMonthly cm roas days"
  by (simp add: portlessMonthly_fl_def portlessMonthly_def growthPerCycle_fl_exact
      portlessCycle_fl_def portlessCycle_def)

lemma traditionalMonthly_fl_exact:
  "traditionalMonthly_fl (\<lambda>x. x) (powr) cm roas = traditionalMonthly cm roas"
  by (simp add: traditionalMonthly_fl_def traditionalMonthly_def growthPerCycle_fl_exact)

lemma simulate_fl_exact: "simulate_fl (\<lambda>x. x) (powr) cm roas days = simulate cm roas days"
proof -
  have "recorded_fl (\<lambda>x. x) (powr) pm tm = recorded pm tm" for pm tm
    by (rule ext) (simp add: recorded_fl_def recorded_def round2_fl_exact index_fl_exact)
  then have "data (simulate_fl (\<lambda>x. x) (powr) cm roas days) = data (simulate cm roas days)"
    by (simp add: simulate_fl_data simulate_data portlessMonthly_fl_exact
        traditionalMonthly_fl_exact recorded_0 upt_conv_Cons [of 0 13] del: upt_Suc)
  moreover have "multiplier (simulate_fl (\<lambda>x. x) (powr) cm roas days) = multiplier (simulate cm roas days)"
    by (simp add: simulate_fl_multiplier simulate_multiplier portlessMonthly_fl_exact
        traditionalMonthly_fl_exact index_fl_exact del: index_fl.simps)
  ultimately show ?thesis by simp
qed


lemma rates_fl_nonneg:
  assumes "mono fl" and "fl 0 = 0" and "\<And>x y. 0 \<le> pw x y"
  shows "0 \<le> growthPerCycle_fl fl pw cm roas"
    and "0 \<le> portlessMonthly_fl fl pw cm roas days"
    and "0 \<le> traditionalMonthly_fl fl pw cm roas"
proof -
  have nonneg: "0 \<le> fl x" if "0 \<le> x" for x
    using monoD [OF assms(1) that] assms(2) by simp
  show g: "0 \<le> growthPerCycle_fl fl pw cm roas"
    unfolding growthPerCycle_fl_def
    by (intro min.boundedI nonneg mult_nonneg_nonneg assms(3)) simp_all
  have "0 < portlessCycle_fl fl days"
    by (simp add: portlessCycle_fl_def less_max_iff_disj)
  with g show "0 \<le> portlessMonthly_fl fl pw cm roas days"
    unfolding portlessMonthly_fl_def by (intro nonneg divide_nonneg_pos)
  from g show "0 \<le> traditionalMonthly_fl fl pw cm roas"
    unfolding traditionalMonthly_fl_def TRADITIONAL_CYCLE_def
    by (intro nonneg divide_nonneg_pos) simp_all
qed

lemma index_fl_ge_1:
  assumes "mono fl" and "fl 0 = 0" and "fl 1 = 1" and "\<And>x y. 0 \<le> pw x y" and "0 \<le> r"
  shows "1 \<le> index_fl fl pw r m"
proof (induction m)
  case 0
  show ?case by simp
next
  case (Suc m)
  have nonneg: "0 \<le> fl x" if "0 \<le> x" for x
    using monoD [OF assms(1) that] assms(2) by simp
  have ge1: "1 \<le> fl x" if "1 \<le> x" for x
    using monoD [OF assms(1) that] assms(3) by simp
  have "0 \<le> fl (r * pw (fl DECAY) (real m))"
    by (intro nonneg mult_nonneg_nonneg assms)
  then have "1 \<le> fl (1 + fl (r * pw (fl DECAY) (real m)))"
    by (intro ge1) simp
  with Suc have "1 * 1 \<le> index_fl fl pw r m * fl (1 + fl (r * pw (fl DECAY) (real m)))"
    by (intro mult_mono) simp_all
  then show ?case
    by (simp add: ge1)
qed

section \<open>The two readings at \<open>simulate(0.5, 3, -720)\<close>\<close>

text \<open>
  Where the two readings differ. At \<open>cm = 0.5, roas = 3, netTermsDays = -720\<close> the
  fast monthly rate is the double 0.035, the running index after month 1 is the
  double just below 1.035, and \<open>round2\<close> of it is the double 1.03
  (\<open>second_reading_negative_terms\<close>, for every power function with \<open>pw 1 y = 1\<close> and
  \<open>pw x 0 = 1\<close>); on exact reals the index is 1.035 and \<open>round2\<close> of it is 1.04
  (\<open>first_reading_negative_terms\<close>).
\<close>

lemma pow2_powr: "pow2 e = 2 powr of_int e"
  by (simp add: pow2_def powr_real_of_int field_simps)

lemma fl64_eval:
  assumes "pow2 k \<le> \<bar>x\<bar>" and "\<bar>x\<bar> < pow2 (k + 1)" and "- 1022 \<le> k"
  shows "fl64 x = of_int (round_even (x / pow2 (k - 52))) * pow2 (k - 52)"
proof -
  have pos: "0 < \<bar>x\<bar>"
    using assms(1) by (simp add: pow2_powr) (smt (verit) powr_gt_zero)
  have "of_int k \<le> log 2 \<bar>x\<bar>"
    using assms(1) pos by (simp add: pow2_powr le_log_iff)
  moreover have "log 2 \<bar>x\<bar> < of_int k + 1"
    using assms(2) pos by (simp add: pow2_powr log_less_iff add.commute)
  ultimately have "\<lfloor>log 2 \<bar>x\<bar>\<rfloor> = k"
    by (simp add: floor_eq_iff)
  with pos assms(3) show ?thesis
    by (simp add: fl64_def Let_def max_def)
qed

lemmas fl64_simps = pow2_def round_even_def

lemma fl64_literal_014: "fl64 (7 / 50) = 1261007895663739 / 9007199254740992"
  by (simp add: fl64_eval [of "- 3"] fl64_simps)

lemma fl64_double_014: "fl64 (1261007895663739 / 9007199254740992) = 1261007895663739 / 9007199254740992"
  by (simp add: fl64_eval [of "- 3"] fl64_simps)

lemma fl64_literal_035: "fl64 (7 / 20) = 3152519739159347 / 9007199254740992"
  by (simp add: fl64_eval [of "- 2"] fl64_simps)

lemma fl64_literal_0004: "fl64 (1 / 250) = 1152921504606847 / 288230376151711744"
  by (simp add: fl64_eval [of "- 8"] fl64_simps)

lemma fl64_minus_750: "fl64 (- 750) = - 750"
  by (simp add: fl64_eval [of 9] fl64_simps)

lemma fl64_terms_product: "fl64 (- (432345564227567625 / 144115188075855872)) = - 3"
  by (simp add: fl64_eval [of 1] fl64_simps)

lemma fl64_1: "fl64 1 = 1"
  by (simp add: fl64_eval [of 0] fl64_simps)

lemma fl64_2: "fl64 2 = 2"
  by (simp add: fl64_eval [of 1] fl64_simps)

lemma fl64_4: "fl64 4 = 4"
  by (simp add: fl64_eval [of 2] fl64_simps)

lemma fl64_rate: "fl64 (1261007895663739 / 36028797018963968) = 1261007895663739 / 36028797018963968"
  by (simp add: fl64_eval [of "- 5"] fl64_simps)

lemma fl64_factor: "fl64 (37289804914627707 / 36028797018963968) = 4661225614328463 / 4503599627370496"
  by (simp add: fl64_eval [of 0] fl64_simps)

lemma fl64_index: "fl64 (4661225614328463 / 4503599627370496) = 4661225614328463 / 4503599627370496"
  by (simp add: fl64_eval [of 0] fl64_simps)

lemma fl64_times_100: "fl64 (116530640358211575 / 1125899906842624) = 7283165022388223 / 70368744177664"
  by (simp add: fl64_eval [of 6] fl64_simps)

lemmas fl64_values =
  fl64_literal_014 fl64_double_014 fl64_literal_035 fl64_literal_0004 fl64_minus_750
  fl64_terms_product fl64_1 fl64_2 fl64_4 fl64_rate fl64_factor fl64_index fl64_times_100

lemma portlessMonthly_fl64_negative_terms:
  assumes "\<And>y. pw 1 y = 1"
  shows "portlessMonthly_fl fl64 pw (1/2) 3 (- 720) = 1261007895663739 / 36028797018963968"
proof -
  have raw: "rawExcess_fl fl64 (1/2) 3 = 1"
    by (simp add: rawExcess_fl_def fl64_values)
  have g: "growthPerCycle_fl fl64 pw (1/2) 3 = 1261007895663739 / 9007199254740992"
    by (simp add: growthPerCycle_fl_def raw assms fl64_values)
  have c: "portlessCycle_fl fl64 (- 720) = 4"
    by (simp add: portlessCycle_fl_def fl64_values)
  show ?thesis
    by (simp add: portlessMonthly_fl_def g c fl64_values)
qed

lemma second_reading_negative_terms:
  assumes "\<And>y. pw 1 y = 1" and "\<And>x. pw x 0 = 1"
  shows "portless (data (simulate_fl fl64 pw (1/2) 3 (- 720)) ! 1) = fl64 (103 / 100)"
proof -
  let ?pm = "portlessMonthly_fl fl64 pw (1/2) 3 (- 720)"
  have "index_fl fl64 pw ?pm (Suc 0) = 4661225614328463 / 4503599627370496"
    by (simp add: portlessMonthly_fl64_negative_terms assms fl64_values)
  moreover have "round2_fl fl64 (4661225614328463 / 4503599627370496) = fl64 (103 / 100)"
    by (simp add: round2_fl_def fl64_values)
  ultimately have "round2_fl fl64 (index_fl fl64 pw ?pm (Suc 0)) = fl64 (103 / 100)"
    by (simp only:)
  then show ?thesis
    by (simp add: simulate_fl_data recorded_fl_def upt_conv_Cons [of 1 13] del: upt_Suc index_fl.simps)
qed

lemma first_reading_negative_terms:
  "portless (data (simulate (1/2) 3 (- 720)) ! 1) = 104 / 100"
proof -
  have pm: "portlessMonthly (1/2) 3 (- 720) = 7 / 200"
    by (simp add: portlessMonthly_def growthPerCycle_unit_excess portlessCycle_def)
  have "round2 (index_after (7 / 200) (Suc 0)) = 104 / 100"
    by (simp add: index_after_Suc index_after_0 round2_def)
  then show ?thesis
    by (simp add: nth_data recorded_def pm)
qed

lemma fl64_literal_103: "fl64 (103 / 100) = 4638707616191611 / 4503599627370496"
  by (simp add: fl64_eval [of 0] fl64_simps)

section \<open>Evaluation at negative contribution margins\<close>

lemma quarter_powr: "(1/4 :: real) powr 0.7 = 1 / 4 powr 0.7"
  by (simp add: powr_divide)

lemma quarter_powr_lower: "(3787 / 10000 :: real) < (1/4) powr 0.7"
proof -
  have "(0::real) < 4 powr 0.7" by simp
  then show ?thesis
    unfolding quarter_powr using four_powr_upper by (simp add: field_simps)
qed

lemma quarter_powr_upper: "(1/4 :: real) powr 0.7 < 3790 / 10000"
proof -
  have "(0::real) < 4 powr 0.7" by simp
  then show ?thesis
    unfolding quarter_powr using four_powr_lower by (simp add: field_simps)
qed

lemma growthPerCycle_negative_margin:
  "growthPerCycle (- (1/2)) (1/2) = 0.14 * (1/4) powr 0.7"
  using quarter_powr_upper by (simp add: growthPerCycle_def rawExcess_def min_def)

lemma growthPerCycle_negative_margin_lower: "53 / 1000 < growthPerCycle (- (1/2)) (1/2)"
  unfolding growthPerCycle_negative_margin using quarter_powr_lower by simp

lemma growthPerCycle_negative_margin_upper: "growthPerCycle (- (1/2)) (1/2) < 531 / 10000"
  unfolding growthPerCycle_negative_margin using quarter_powr_upper by simp

lemma traditional_12_lower: "115 / 100 \<le> round2 (index_after (53 / 3500) 12)"
  by (simp add: index_after_eval round2_def)

lemma portless_index_12_lower: "16 / 10 \<le> index_after (53 / 1000) 12"
  by (simp add: index_after_eval)

lemma traditional_index_12_upper: "index_after (531 / 35000) 12 \<le> 12 / 10"
  by (simp add: index_after_eval)

lemma growthPerCycle_half_excess: "growthPerCycle (-1) (1/2) = 0.14 * (1/2) powr 0.7"
proof -
  have "(1/2 :: real) powr 0.7 \<le> 1"
    by (rule powr_le1) simp_all
  then show ?thesis
    by (simp add: growthPerCycle_def rawExcess_def min_def)
qed

lemma growthPerCycle_negative_margins_fall:
  "growthPerCycle (- (1/2)) (1/2) < growthPerCycle (-1) (1/2)"
proof -
  have "(1/4 :: real) powr 0.7 < (1/2) powr 0.7"
    by (rule powr_less_mono2) simp_all
  then show ?thesis
    unfolding growthPerCycle_negative_margin growthPerCycle_half_excess by simp
qed

section \<open>The claims\<close>

subsection \<open>C1: what the loop carries from month to month\<close>

text \<open>
  C1, as stated, fails. The claim says that the value rounded to 2 decimals is the one
  carried into the next month's multiplication. At \<open>cm = 0.80, roas = 6.0,
  netTermsDays = 30\<close> the fast index recorded for month 3 is 2.39, whereas the recorded
  (rounded) month-2 value 1.80 multiplied by month 3's factor \<open>1 + 0.35 * 0.96\<^sup>2\<close> and
  rounded is 2.38: the source multiplies the unrounded \<open>pIdx\<close>, and \<open>round2\<close> is
  applied only to the copy pushed into \<open>data\<close>.
\<close>

theorem rounded_value_not_carried_counterexample:
  "portless (data (simulate (4/5) 6 30) ! 3) = 239/100 \<and>
   round2 (portless (data (simulate (4/5) 6 30) ! 2) *
           (1 + portlessMonthly (4/5) 6 30 * DECAY ^ (3 - 1))) = 238/100 \<and>
   portless (data (simulate (4/5) 6 30) ! 3) \<noteq>
     round2 (portless (data (simulate (4/5) 6 30) ! 2) *
             (1 + portlessMonthly (4/5) 6 30 * DECAY ^ (3 - 1)))"
proof -
  have month3: "portless (data (simulate (4/5) 6 30) ! 3) = 239/100"
    by (simp add: nth_data recorded_def portlessMonthly_capped capped_portless_3)
  have month2: "portless (data (simulate (4/5) 6 30) ! 2) = 180/100"
    by (simp add: nth_data recorded_def portlessMonthly_capped capped_portless_2)
  have "round2 (180/100 * (1 + 7/20 * DECAY ^ (3 - 1))) = 238/100"
    by (simp add: DECAY_def round2_def power_divide)
  then have carried:
    "round2 (portless (data (simulate (4/5) 6 30) ! 2) *
             (1 + portlessMonthly (4/5) 6 30 * DECAY ^ (3 - 1))) = 238/100"
    by (simp only: month2 portlessMonthly_capped)
  have "(239/100 :: real) \<noteq> 238/100"
    by simp
  then show ?thesis
    by (simp only: month3 carried simp_thms)
qed

text \<open>
  C1, amended. In the loop, for every month \<open>m\<close> the decay factor is
  \<open>Math.pow(0.96, m - 1)\<close> and each running index is multiplied by
  \<open>1 + monthlyRate * d\<close> (each operation in double precision); the running index is
  not rounded to 2 decimals and is the value carried into the next month, and the
  recorded point holds \<open>round2\<close> of the running indices. Hence the returned series is
  the point \<open>{0, 1, 1}\<close> followed, for \<open>m = 1, ..., 12\<close>, by \<open>round2\<close> of the running
  indices after month \<open>m\<close>, which are computed with no \<open>round2\<close> in between. This holds
  for every rounding \<open>fl\<close> and every power function \<open>pw\<close>.
\<close>

theorem loop_carries_unrounded_index:
  "pIdx (loop_body_fl fl pw pm tm m s) =
     fl (pIdx s * fl (1 + fl (pm * pw (fl 0.96) (real (m - 1))))) \<and>
   tIdx (loop_body_fl fl pw pm tm m s) =
     fl (tIdx s * fl (1 + fl (tm * pw (fl 0.96) (real (m - 1))))) \<and>
   acc (loop_body_fl fl pw pm tm m s) =
     acc s @ [\<lparr>month = m, portless = round2_fl fl (pIdx (loop_body_fl fl pw pm tm m s)),
               traditional = round2_fl fl (tIdx (loop_body_fl fl pw pm tm m s))\<rparr>] \<and>
   data (simulate_fl fl pw cm roas days) =
     \<lparr>month = 0, portless = 1, traditional = 1\<rparr> #
     map (\<lambda>m. \<lparr>month = m,
               portless = round2_fl fl (index_fl fl pw (portlessMonthly_fl fl pw cm roas days) m),
               traditional = round2_fl fl (index_fl fl pw (traditionalMonthly_fl fl pw cm roas) m)\<rparr>)
         [1..<13]"
proof -
  have "recorded_fl fl pw (portlessMonthly_fl fl pw cm roas days) (traditionalMonthly_fl fl pw cm roas) =
        (\<lambda>m. \<lparr>month = m,
               portless = round2_fl fl (index_fl fl pw (portlessMonthly_fl fl pw cm roas days) m),
               traditional = round2_fl fl (index_fl fl pw (traditionalMonthly_fl fl pw cm roas) m)\<rparr>)"
    by (rule ext) (simp add: recorded_fl_def)
  then have "data (simulate_fl fl pw cm roas days) =
     \<lparr>month = 0, portless = 1, traditional = 1\<rparr> #
     map (\<lambda>m. \<lparr>month = m,
               portless = round2_fl fl (index_fl fl pw (portlessMonthly_fl fl pw cm roas days) m),
               traditional = round2_fl fl (index_fl fl pw (traditionalMonthly_fl fl pw cm roas) m)\<rparr>)
         [1..<13]"
    by (simp only: simulate_fl_data)
  then show ?thesis
    by (simp add: loop_body_fl_def Let_def DECAY_def del: upt_Suc)
qed

subsection \<open>C2: the multiplier\<close>

text \<open>
  C2, as stated, fails. The claim says the multiplier is the quotient of the month-12
  entries of the returned series. At \<open>cm = 0.80, roas = 6.0, netTermsDays = 30\<close> the
  month-12 entries are 19.67 and 2.54, and the multiplier is not \<open>19.67 / 2.54\<close>.
\<close>

theorem multiplier_not_series_ratio_counterexample:
  "multiplier (simulate (4/5) 6 30) \<noteq>
     portless (data (simulate (4/5) 6 30) ! 12) / traditional (data (simulate (4/5) 6 30) ! 12)"
proof -
  have fast12: "portless (data (simulate (4/5) 6 30) ! 12) = 1967/100"
    by (simp add: nth_data recorded_def portlessMonthly_capped capped_portless_12)
  have trad12: "traditional (data (simulate (4/5) 6 30) ! 12) = 254/100"
    by (simp add: nth_data recorded_def traditionalMonthly_capped capped_traditional_12)
  show ?thesis
    unfolding fast12 trad12 simulate_multiplier portlessMonthly_capped traditionalMonthly_capped
    by (rule capped_ratio_12)
qed

text \<open>
  C2, amended. The multiplier is the final fast running index divided by the final
  traditional running index (the quotient rounded to a double), neither of them
  rounded to 2 decimals; the month-12 entries of the series are \<open>round2\<close> of these
  two running indices, so they are in general not the values the multiplier divides.
  This holds for every rounding \<open>fl\<close> and every power function \<open>pw\<close>; for a monotone
  rounding that fixes 0 and 1 the divisor is at least 1 (\<open>index_fl_ge_1\<close>).
\<close>

theorem multiplier_is_unrounded_ratio:
  "multiplier (simulate_fl fl pw cm roas days) =
     fl (pIdx (loop_fl fl pw (portlessMonthly_fl fl pw cm roas days)
                 (traditionalMonthly_fl fl pw cm roas) 1 init_state) /
         tIdx (loop_fl fl pw (portlessMonthly_fl fl pw cm roas days)
                 (traditionalMonthly_fl fl pw cm roas) 1 init_state)) \<and>
   data (simulate_fl fl pw cm roas days) ! 12 =
     \<lparr>month = 12,
      portless = round2_fl fl (pIdx (loop_fl fl pw (portlessMonthly_fl fl pw cm roas days)
                                      (traditionalMonthly_fl fl pw cm roas) 1 init_state)),
      traditional = round2_fl fl (tIdx (loop_fl fl pw (portlessMonthly_fl fl pw cm roas days)
                                         (traditionalMonthly_fl fl pw cm roas) 1 init_state))\<rparr> \<and>
   pIdx (loop_fl fl pw (portlessMonthly_fl fl pw cm roas days)
           (traditionalMonthly_fl fl pw cm roas) 1 init_state) =
     index_fl fl pw (portlessMonthly_fl fl pw cm roas days) 12 \<and>
   tIdx (loop_fl fl pw (portlessMonthly_fl fl pw cm roas days)
           (traditionalMonthly_fl fl pw cm roas) 1 init_state) =
     index_fl fl pw (traditionalMonthly_fl fl pw cm roas) 12"
proof -
  have "(\<lparr>month = 0, portless = 1, traditional = 1\<rparr> #
          map (recorded_fl fl pw (portlessMonthly_fl fl pw cm roas days)
                 (traditionalMonthly_fl fl pw cm roas)) [1..<13]) ! 12 =
        recorded_fl fl pw (portlessMonthly_fl fl pw cm roas days)
          (traditionalMonthly_fl fl pw cm roas) 12"
    by (simp del: upt_Suc)
  then have "data (simulate_fl fl pw cm roas days) ! 12 =
        recorded_fl fl pw (portlessMonthly_fl fl pw cm roas days)
          (traditionalMonthly_fl fl pw cm roas) 12"
    by (simp only: simulate_fl_data)
  then show ?thesis
    by (simp add: simulate_fl_def Let_def loop_fl_init recorded_fl_def del: upt_Suc index_fl.simps)
qed

subsection \<open>C3: growth per cycle\<close>

text \<open>
  C3. For every input the growth per cycle of the source equals
  \<open>min(0.35, 0.14 * (max(0, contributionMargin * (roas - 1))) ^ 0.7)\<close>, the formula in
  the specification's words (\<open>spec_growthPerCycle\<close>). At \<open>contributionMargin = 0.80,
  roas = 6.0\<close> the excess return is 4, the uncapped value \<open>0.14 * 4 ^ 0.7\<close> lies
  strictly between 0.3694 and 0.3696, and the growth per cycle is exactly 0.35.
\<close>

theorem growthPerCycle_formula:
  "growthPerCycle cm roas = spec_growthPerCycle cm roas \<and>
   rawExcess (4/5) 6 = 4 \<and>
   3694 / 10000 < 0.14 * rawExcess (4/5) 6 powr 0.7 \<and>
   0.14 * rawExcess (4/5) 6 powr 0.7 < 3696 / 10000 \<and>
   growthPerCycle (4/5) 6 = 0.35"
proof -
  have "growthPerCycle cm roas = spec_growthPerCycle cm roas"
    by (simp add: growthPerCycle_def spec_growthPerCycle_def rawExcess_def
        min.commute max.commute mult.commute)
  moreover have ex: "rawExcess (4/5) 6 = 4"
    by (simp add: rawExcess_def)
  moreover have "3694 / 10000 < 0.14 * (4::real) powr 0.7"
    using four_powr_lower by simp
  moreover have "0.14 * (4::real) powr 0.7 < 3696 / 10000"
    using four_powr_upper by simp
  moreover have "growthPerCycle (4/5) 6 = 0.35"
    by (simp add: growthPerCycle_capped)
  ultimately show ?thesis by (simp only: ex) 
qed

subsection \<open>C4: cycle lengths and monthly rates\<close>

text \<open>
  C4. The traditional cycle length is 3.5, the fast cycle length is
  \<open>max(0.75, 1.0 - (netTermsDays - 30) * 0.004)\<close>, each monthly rate is the shared
  growth per cycle divided by the model's cycle length, and \<open>simulate\<close> runs its loop
  with exactly these two rates.
\<close>

theorem cycle_lengths_and_monthly_rates:
  "TRADITIONAL_CYCLE = 3.5 \<and>
   portlessCycle days = max 0.75 (1.0 - (days - 30) * 0.004) \<and>
   portlessMonthly cm roas days = growthPerCycle cm roas / portlessCycle days \<and>
   traditionalMonthly cm roas = growthPerCycle cm roas / TRADITIONAL_CYCLE \<and>
   simulate cm roas days =
     (let s = loop (growthPerCycle cm roas / max 0.75 (1.0 - (days - 30) * 0.004))
                   (growthPerCycle cm roas / 3.5) 1 init_state
      in \<lparr>data = acc s, multiplier = pIdx s / tIdx s\<rparr>)"
  by (simp add: TRADITIONAL_CYCLE_def portlessCycle_def portlessMonthly_def
      traditionalMonthly_def simulate_def)

subsection \<open>C5: shape of the series\<close>

text \<open>
  C5. For every input the returned series has 13 points, their months are
  \<open>0, 1, ..., 12\<close> in this order (strictly increasing), and the first point is
  \<open>{month: 0, portless: 1, traditional: 1}\<close>.
\<close>

theorem series_has_13_points:
  "length (data (simulate cm roas days)) = 13 \<and>
   map month (data (simulate cm roas days)) = [0..<13] \<and>
   sorted_wrt (<) (map month (data (simulate cm roas days))) \<and>
   data (simulate cm roas days) ! 0 = \<lparr>month = 0, portless = 1, traditional = 1\<rparr>"
proof -
  have months: "map month (data (simulate cm roas days)) = [0..<13]"
    by (simp add: simulate_data recorded_def comp_def map_idI del: upt_Suc)
  have "data (simulate cm roas days) ! 0 = \<lparr>month = 0, portless = 1, traditional = 1\<rparr>"
    by (simp add: nth_data recorded_0)
  moreover have "length (data (simulate cm roas days)) = 13"
    by (simp add: simulate_data)
  moreover have "sorted_wrt (<) (map month (data (simulate cm roas days)))"
    by (simp only: months sorted_wrt_upt)
  ultimately show ?thesis using months by simp
qed

subsection \<open>C6: monotone series\<close>

text \<open>
  C6. For every input with non-negative contribution margin and ROAS, the recorded
  traditional values and the recorded fast values are each non-decreasing along the
  series. (The clamp makes both monthly rates non-negative whatever the input is, so
  the proof does not need the two hypotheses.)
\<close>

theorem series_non_decreasing:
  assumes "0 \<le> cm" and "0 \<le> roas"
  shows "sorted (map traditional (data (simulate cm roas days))) \<and>
         sorted (map portless (data (simulate cm roas days)))"
proof -
  let ?pm = "portlessMonthly cm roas days" and ?tm = "traditionalMonthly cm roas"
  have "sorted (map (\<lambda>m. round2 (index_after ?tm m)) [0..<13])"
    by (intro sorted_map_upt round2_mono index_after_mono_month traditionalMonthly_nonneg)
  moreover have "sorted (map (\<lambda>m. round2 (index_after ?pm m)) [0..<13])"
    by (intro sorted_map_upt round2_mono index_after_mono_month portlessMonthly_nonneg)
  ultimately show ?thesis
    by (simp add: simulate_data recorded_def comp_def del: upt_Suc)
qed

theorem series_non_decreasing_witness:
  "(0::real) \<le> 1/2 \<and> (0::real) \<le> 3 \<and>
   sorted (map traditional (data (simulate (1/2) 3 45))) \<and>
   sorted (map portless (data (simulate (1/2) 3 45)))"
  using series_non_decreasing [of "1/2" 3 45] by simp

subsection \<open>C7: the multiplier is at least 1\<close>

text \<open>
  C7. For every input with non-negative contribution margin and ROAS whose derived
  fast cycle length is strictly below 3.5 months, the multiplier is at least 1.
\<close>

theorem multiplier_ge_1:
  assumes "0 \<le> cm" and "0 \<le> roas"
    and "portlessCycle days < 3.5"
  shows "1 \<le> multiplier (simulate cm roas days)"
proof -
  let ?pm = "portlessMonthly cm roas days" and ?tm = "traditionalMonthly cm roas"
  have "portlessCycle days \<le> TRADITIONAL_CYCLE"
    using assms(3) by (simp add: TRADITIONAL_CYCLE_def)
  then have "?tm \<le> ?pm"
    unfolding portlessMonthly_def traditionalMonthly_def
    by (intro divide_left_mono growthPerCycle_nonneg mult_pos_pos portlessCycle_pos)
       (simp_all add: TRADITIONAL_CYCLE_def)
  then have "index_after ?tm 12 \<le> index_after ?pm 12"
    by (intro index_after_mono_rate traditionalMonthly_nonneg)
  moreover have "0 < index_after ?tm 12"
    using index_after_ge_1 [OF traditionalMonthly_nonneg, of cm roas 12] by linarith
  ultimately show ?thesis
    by (simp add: simulate_multiplier)
qed

theorem multiplier_ge_1_witness:
  "(0::real) \<le> 1/2 \<and> (0::real) \<le> 3 \<and> portlessCycle 45 < 3.5 \<and>
   1 \<le> multiplier (simulate (1/2) 3 45)"
  using multiplier_ge_1 [of "1/2" 3 45] by (simp add: portlessCycle_def)

subsection \<open>C8: the zero-growth boundary\<close>

text \<open>
  C8, as stated, fails. The claim quantifies over every input with \<open>cm = 0\<close> or
  \<open>roas \<le> 1\<close>. At \<open>cm = -0.5, roas = 0.5, netTermsDays = 30\<close> the excess return is
  \<open>(-0.5) * (0.5 - 1) = 0.25 > 0\<close>: the growth per cycle is positive, the traditional
  index recorded for month 12 is above 1, and the multiplier is above 1. The source
  does not reject a negative margin.
\<close>

theorem zero_growth_negative_margin_counterexample:
  "(1/2 :: real) \<le> 1 \<and>
   0 < growthPerCycle (- (1/2)) (1/2) \<and>
   1 < traditional (data (simulate (- (1/2)) (1/2) 30) ! 12) \<and>
   1 < multiplier (simulate (- (1/2)) (1/2) 30)"
proof -
  let ?g = "growthPerCycle (- (1/2)) (1/2)"
  have g: "0 < ?g"
    using growthPerCycle_negative_margin_lower by simp
  have tm: "traditionalMonthly (- (1/2)) (1/2) = ?g / 3.5"
    by (simp add: traditionalMonthly_def TRADITIONAL_CYCLE_def)
  have pm: "portlessMonthly (- (1/2)) (1/2) 30 = ?g"
    by (simp add: portlessMonthly_def portlessCycle_def)
  have tm_lower: "53 / 3500 \<le> traditionalMonthly (- (1/2)) (1/2)"
    using growthPerCycle_negative_margin_lower by (simp add: tm)
  have tm_upper: "traditionalMonthly (- (1/2)) (1/2) \<le> 531 / 35000"
    using growthPerCycle_negative_margin_upper by (simp add: tm)
  have pm_lower: "53 / 1000 \<le> portlessMonthly (- (1/2)) (1/2) 30"
    using growthPerCycle_negative_margin_lower by (simp add: pm)
  have "round2 (index_after (53 / 3500) 12) \<le> round2 (index_after (traditionalMonthly (- (1/2)) (1/2)) 12)"
    using tm_lower by (intro round2_mono index_after_mono_rate) simp_all
  then have series: "1 < traditional (data (simulate (- (1/2)) (1/2) 30) ! 12)"
    using traditional_12_lower by (simp add: nth_data recorded_def)
  have "index_after (traditionalMonthly (- (1/2)) (1/2)) 12 \<le> index_after (531 / 35000) 12"
    using tm_upper by (intro index_after_mono_rate traditionalMonthly_nonneg)
  then have t: "index_after (traditionalMonthly (- (1/2)) (1/2)) 12 \<le> 12 / 10"
    using traditional_index_12_upper by linarith
  have "index_after (53 / 1000) 12 \<le> index_after (portlessMonthly (- (1/2)) (1/2) 30) 12"
    using pm_lower by (intro index_after_mono_rate) simp_all
  then have p: "16 / 10 \<le> index_after (portlessMonthly (- (1/2)) (1/2) 30) 12"
    using portless_index_12_lower by linarith
  have "0 < index_after (traditionalMonthly (- (1/2)) (1/2)) 12"
    using index_after_ge_1 [OF traditionalMonthly_nonneg, of "- (1/2)" "1/2" 12] by linarith
  with t p have "1 < multiplier (simulate (- (1/2)) (1/2) 30)"
    by (simp add: simulate_multiplier)
  with g series show ?thesis by simp
qed

text \<open>
  C8, amended. For every input with a non-negative contribution margin and with
  \<open>cm = 0\<close> or \<open>roas \<le> 1\<close>, and any payment terms, the growth per cycle is 0, every
  point of the series has both indices equal to 1, and the multiplier is 1.
\<close>

theorem zero_growth_boundary:
  assumes "0 \<le> cm" and "cm = 0 \<or> roas \<le> 1"
  shows "growthPerCycle cm roas = 0 \<and>
         data (simulate cm roas days) = map (\<lambda>m. \<lparr>month = m, portless = 1, traditional = 1\<rparr>) [0..<13] \<and>
         multiplier (simulate cm roas days) = 1"
proof -
  have "rawExcess cm roas \<le> 0"
    using assms by (auto simp: rawExcess_def mult_le_0_iff)
  then have g: "growthPerCycle cm roas = 0"
    by (simp add: growthPerCycle_zero_iff)
  then have "portlessMonthly cm roas days = 0" and "traditionalMonthly cm roas = 0"
    by (simp_all add: portlessMonthly_def traditionalMonthly_def)
  then have "data (simulate cm roas days) = map (recorded 0 0) [0..<13]"
    and "multiplier (simulate cm roas days) = 1"
    by (simp_all add: simulate_data simulate_multiplier index_after_rate_0)
  with g show ?thesis
    by (simp add: recorded_rate_0 del: upt_Suc)
qed

theorem zero_growth_boundary_witness:
  "(0::real) \<le> 1/2 \<and> ((1/2::real) = 0 \<or> (4/5::real) \<le> 1) \<and>
   growthPerCycle (1/2) (4/5) = 0 \<and>
   data (simulate (1/2) (4/5) 45) = map (\<lambda>m. \<lparr>month = m, portless = 1, traditional = 1\<rparr>) [0..<13] \<and>
   multiplier (simulate (1/2) (4/5) 45) = 1"
  using zero_growth_boundary [of "1/2" "4/5" 45] by simp

subsection \<open>C9: monotonicity in the contribution margin\<close>

text \<open>
  C9, as stated, fails. With \<open>roas = 0.5\<close> the margins \<open>cm1 = -1 \<le> cm2 = -0.5\<close> have
  the non-negative excess returns 0.5 and 0.25, and the growth per cycle and both
  monthly rates are strictly smaller for \<open>cm2\<close> than for \<open>cm1\<close>.
\<close>

theorem growthPerCycle_mono_margin_counterexample:
  "(-1 :: real) \<le> - (1/2) \<and>
   0 \<le> rawExcess (-1) (1/2) \<and> 0 \<le> rawExcess (- (1/2)) (1/2) \<and>
   growthPerCycle (- (1/2)) (1/2) < growthPerCycle (-1) (1/2) \<and>
   portlessMonthly (- (1/2)) (1/2) 30 < portlessMonthly (-1) (1/2) 30 \<and>
   traditionalMonthly (- (1/2)) (1/2) < traditionalMonthly (-1) (1/2)"
  using growthPerCycle_negative_margins_fall
  by (simp add: rawExcess_def portlessMonthly_def portlessCycle_def traditionalMonthly_def
      TRADITIONAL_CYCLE_def)

text \<open>
  C9, amended. With ROAS and payment terms fixed, for contribution margins
  \<open>0 \<le> cm1 \<le> cm2\<close> whose excess returns \<open>cm * (roas - 1)\<close> are both non-negative,
  the growth per cycle for \<open>cm2\<close> is at least the one for \<open>cm1\<close>, and so is each
  model's monthly rate.
\<close>

theorem growthPerCycle_mono_margin:
  assumes "0 \<le> cm1" and "cm1 \<le> cm2"
    and "0 \<le> cm1 * (roas - 1)" and "0 \<le> cm2 * (roas - 1)"
  shows "growthPerCycle cm1 roas \<le> growthPerCycle cm2 roas \<and>
         portlessMonthly cm1 roas days \<le> portlessMonthly cm2 roas days \<and>
         traditionalMonthly cm1 roas \<le> traditionalMonthly cm2 roas"
proof -
  have "rawExcess cm1 roas \<le> rawExcess cm2 roas"
  proof (cases "1 \<le> roas")
    case True
    with assms(2) show ?thesis
      by (simp add: rawExcess_def mult_right_mono)
  next
    case False
    with assms(1,2,4) have "cm2 = 0" "cm1 = 0"
      by (auto simp: zero_le_mult_iff)
    then show ?thesis by (simp add: rawExcess_def)
  qed
  then have g: "growthPerCycle cm1 roas \<le> growthPerCycle cm2 roas"
    by (rule growthPerCycle_mono_excess)
  moreover from g have "portlessMonthly cm1 roas days \<le> portlessMonthly cm2 roas days"
    using portlessCycle_pos [of days] by (simp add: portlessMonthly_def divide_right_mono)
  moreover from g have "traditionalMonthly cm1 roas \<le> traditionalMonthly cm2 roas"
    by (simp add: traditionalMonthly_def TRADITIONAL_CYCLE_def)
  ultimately show ?thesis by simp
qed

theorem growthPerCycle_mono_margin_witness:
  "(0::real) \<le> 1/5 \<and> (1/5::real) \<le> 1/2 \<and> (0::real) \<le> 1/5 * (3 - 1) \<and> (0::real) \<le> 1/2 * (3 - 1) \<and>
   growthPerCycle (1/5) 3 \<le> growthPerCycle (1/2) 3 \<and>
   portlessMonthly (1/5) 3 45 \<le> portlessMonthly (1/2) 3 45 \<and>
   traditionalMonthly (1/5) 3 \<le> traditionalMonthly (1/2) 3"
  using growthPerCycle_mono_margin [of "1/5" "1/2" 3 45] by simp

subsection \<open>C10: the traditional series does not depend on the payment terms\<close>

text \<open>
  C10. Two calls with the same contribution margin and ROAS and any two payment
  terms return the same traditional value at every month (and the same months): the
  payment terms reach only the fast values and the multiplier.
\<close>

theorem traditional_independent_of_terms:
  "map traditional (data (simulate cm roas days1)) = map traditional (data (simulate cm roas days2)) \<and>
   map month (data (simulate cm roas days1)) = map month (data (simulate cm roas days2))"
  by (simp add: simulate_data recorded_def comp_def del: upt_Suc)

end
